theory Spec2Isabelle
  imports Complex_Main "HOL-Library.Sublist"
begin

section \<open>Python values\<close>

text \<open>
  A Python \<open>str\<close> is a sequence of Unicode code points, so it is modelled as a list of
  code points: \<open>len\<close>, \<open>in\<close> and \<open>strip\<close> of the source count code points, not bytes.
  A literal of the source that is plain ASCII is written \<open>ascii ''...''\<close>; a literal with
  Arabic letters or emoji is written as the list of its code points.
\<close>

type_synonym pystr = "nat list"

definition ascii :: "string \<Rightarrow> pystr" where
  "ascii s = map of_char s"

text \<open>
  The values that travel through the handlers: what \<open>json()\<close> of a response parses to,
  what pandas puts into the cells of the precaution table (a blank cell is the float NaN),
  and the dictionaries the handlers build. The items of a \<open>PDict\<close> are the dictionary's
  items in insertion order; the keys of a Python dictionary are distinct, and on such a
  list \<open>map_of\<close> is the dictionary's lookup.
\<close>

datatype pyval =
    PNone
  | PBool bool
  | PInt int
  | PFloat real
  | PNaN
  | PStr pystr
  | PList "pyval list"
  | PDict "(pystr \<times> pyval) list"

datatype py_error =
    TypeError
  | IndexError
  | KeyError
  | ValueError
  | ExternalError pystr

text \<open>Truth value of an object, as \<open>if not data\<close> tests it.\<close>

fun truthy :: "pyval \<Rightarrow> bool" where
  "truthy PNone = False"
| "truthy (PBool b) = b"
| "truthy (PInt i) = (i \<noteq> 0)"
| "truthy (PFloat r) = (r \<noteq> 0)"
| "truthy PNaN = True"
| "truthy (PStr s) = (s \<noteq> [])"
| "truthy (PList xs) = (xs \<noteq> [])"
| "truthy (PDict kvs) = (kvs \<noteq> [])"

text \<open>
  \<open>for doc in data\<close>: a list gives its elements, a string its characters, a dictionary its
  keys; anything else raises \<open>TypeError\<close> (the object is not iterable).
\<close>

fun py_iter :: "pyval \<Rightarrow> py_error + pyval list" where
  "py_iter (PList xs) = Inr xs"
| "py_iter (PStr s) = Inr (map (\<lambda>c. PStr [c]) s)"
| "py_iter (PDict kvs) = Inr (map (\<lambda>kv. PStr (fst kv)) kvs)"
| "py_iter v = Inl TypeError"

text \<open>\<open>d.get(k)\<close> of a dictionary: \<open>None\<close> when the key is absent.\<close>

definition dict_get :: "(pystr \<times> pyval) list \<Rightarrow> pystr \<Rightarrow> pyval" where
  "dict_get kvs k = (case map_of kvs k of None \<Rightarrow> PNone | Some v \<Rightarrow> v)"

text \<open>
  \<open>obj[k]\<close> with a string key: the value of a dictionary (\<open>KeyError\<close> when absent);
  on a string or a list it raises \<open>TypeError\<close> (indices must be integers), and the other
  objects are not subscriptable.
\<close>

fun subscript :: "pyval \<Rightarrow> pystr \<Rightarrow> py_error + pyval" where
  "subscript (PDict kvs) k = (case map_of kvs k of None \<Rightarrow> Inl KeyError | Some v \<Rightarrow> Inr v)"
| "subscript v k = Inl TypeError"

text \<open>\<open>any(word in s for word in words)\<close>; \<open>word in s\<close> is the substring test.\<close>

definition any_in :: "pystr list \<Rightarrow> pystr \<Rightarrow> bool" where
  "any_in words s = list_ex (\<lambda>word. sublist word s) words"

text \<open>
  \<open>str.isspace\<close> of one character (the code points Python counts as whitespace) and
  \<open>str.strip()\<close>, which removes them from both ends.
\<close>

definition py_isspace :: "nat \<Rightarrow> bool" where
  "py_isspace c =
     ((9 \<le> c \<and> c \<le> 13) \<or> (28 \<le> c \<and> c \<le> 32) \<or> c = 133 \<or> c = 160 \<or> c = 5760
      \<or> (8192 \<le> c \<and> c \<le> 8202) \<or> c = 8232 \<or> c = 8233 \<or> c = 8239 \<or> c = 8287
      \<or> c = 12288)"

definition py_strip :: "pystr \<Rightarrow> pystr" where
  "py_strip s = rev (dropWhile py_isspace (rev (dropWhile py_isspace s)))"

text \<open>\<open>str(n)\<close> of a natural number, and \<open>sep.join(xs)\<close>.\<close>

fun str_nat :: "nat \<Rightarrow> pystr" where
  "str_nat n = (if n < 10 then [48 + n] else str_nat (n div 10) @ [48 + n mod 10])"

fun py_join :: "pystr \<Rightarrow> pystr list \<Rightarrow> pystr" where
  "py_join sep [] = []"
| "py_join sep [x] = x"
| "py_join sep (x # y # ys) = x @ sep @ py_join sep (y # ys)"

text \<open>
  \<open>xs[k:]\<close> for an integer \<open>k\<close>: a negative \<open>k\<close> counts from the end and is clipped at the
  start of the list; \<open>xs[-n:]\<close> of the source is \<open>slice_from (- n) xs\<close>, and \<open>-0\<close> is \<open>0\<close>.
\<close>

definition slice_from :: "int \<Rightarrow> 'a list \<Rightarrow> 'a list" where
  "slice_from k xs =
     (if k < 0 then drop (nat (int (length xs) + k)) xs else drop (nat k) xs)"

section \<open>Constants of \<open>api.py\<close> and \<open>main.py\<close>\<close>

text \<open>The language-switch phrases (lines 128 to 133 of \<open>api.py\<close>).\<close>

definition switch_ar :: "pystr list" where
  "switch_ar =
     [[0x643, 0x644, 0x645, 0x646, 0x64A, 0x20, 0x639, 0x631, 0x628, 0x64A],
      ascii ''speak arabic'']"

definition switch_en :: "pystr list" where
  "switch_en =
     [ascii ''speak english'',
      [0x643, 0x644, 0x645, 0x646, 0x64A, 0x20, 0x627, 0x646, 0x62C, 0x644, 0x64A, 0x632, 0x64A]]"

definition switch_fr :: "pystr list" where
  "switch_fr =
     [ascii ''speak french'',
      [0x643, 0x644, 0x645, 0x646, 0x64A, 0x20, 0x641, 0x631, 0x646, 0x633, 0x64A]]"

text \<open>The three acknowledgments, as the source spells them.\<close>

definition ack_ar :: pystr where
  "ack_ar =
     [0x62A, 0x645, 0x627, 0x645, 0x20, 0x2705, 0x20, 0x647, 0x643, 0x644, 0x645, 0x643, 0x20,
      0x628, 0x627, 0x644, 0x639, 0x631, 0x628, 0x64A, 0x21]"

definition ack_en :: pystr where
  "ack_en = ascii ''Okay '' @ [0x2705] @ ascii '' I'' @ [0x27] @ ascii ''ll speak English now!''"

definition ack_fr :: pystr where
  "ack_fr =
     [0x62A, 0x645, 0x627, 0x645, 0x20, 0x2705, 0x20, 0x647, 0x643, 0x644, 0x645, 0x643, 0x20,
      0x628, 0x627, 0x644, 0x641, 0x631, 0x646, 0x633, 0x627, 0x648, 0x64A, 0x20, 0x645, 0x646,
      0x20, 0x62F, 0x644, 0x648, 0x642, 0x62A, 0x64A, 0x21]"

text \<open>\<open>greetings\<close> and \<open>greeting_responses\<close>, in the order the dictionaries are written.\<close>

definition greetings :: "(pystr \<times> pystr list) list" where
  "greetings =
     [(ascii ''ar'',
       [[0x627, 0x647, 0x644, 0x627],
        [0x645, 0x631, 0x62D, 0x628, 0x627],
        [0x647, 0x644, 0x627],
        [0x627, 0x644, 0x633, 0x644, 0x627, 0x645, 0x20, 0x639, 0x644, 0x64A, 0x643, 0x645]]),
      (ascii ''en'', [ascii ''hello'', ascii ''hi'', ascii ''hey'']),
      (ascii ''fr'', [ascii ''bonjour'', ascii ''salut''])]"

definition greeting_ar :: pystr where
  "greeting_ar =
     [0x623, 0x647, 0x644, 0x627, 0x20, 0x628, 0x64A, 0x643, 0x20, 0x1F44B, 0x60C, 0x20, 0x642,
      0x648, 0x644, 0x644, 0x64A, 0x20, 0x623, 0x639, 0x631, 0x627, 0x636, 0x643, 0x61F]"

definition greeting_en :: pystr where
  "greeting_en = ascii ''Hello '' @ [0x1F44B] @ ascii '', tell me your symptoms?''"

definition greeting_fr :: pystr where
  "greeting_fr =
     ascii ''Bonjour '' @ [0x1F44B] @ ascii '', dites-moi vos sympt'' @ [0xF4] @ ascii ''mes?''"

definition greeting_responses :: "(pystr \<times> pystr) list" where
  "greeting_responses =
     [(ascii ''ar'', greeting_ar), (ascii ''en'', greeting_en), (ascii ''fr'', greeting_fr)]"

definition disease_translations :: "(pystr \<times> (pystr \<times> pystr) list) list" where
  "disease_translations =
     [(ascii ''Common Cold'',
       [(ascii ''ar'', [0x646, 0x632, 0x644, 0x629, 0x20, 0x628, 0x631, 0x62F]),
        (ascii ''fr'', ascii ''Rhume commun'')]),
      (ascii ''Diabetes'',
       [(ascii ''ar'', [0x62F, 0x627, 0x621, 0x20, 0x627, 0x644, 0x633, 0x643, 0x631, 0x64A]),
        (ascii ''fr'', ascii ''Diab'' @ [0xE8] @ ascii ''te'')]),
      (ascii ''Migraine'',
       [(ascii ''ar'', [0x635, 0x62F, 0x627, 0x639, 0x20, 0x646, 0x635, 0x641, 0x64A]),
        (ascii ''fr'', ascii ''Migraine'')]),
      (ascii ''Malaria'',
       [(ascii ''ar'', [0x627, 0x644, 0x645, 0x644, 0x627, 0x631, 0x64A, 0x627]),
        (ascii ''fr'', ascii ''Paludisme'')]),
      (ascii ''Tuberculosis'',
       [(ascii ''ar'', [0x627, 0x644, 0x633, 0x644]),
        (ascii ''fr'', ascii ''Tuberculose'')])]"

definition no_description :: pystr where
  "no_description = ascii ''No description available.''"

section \<open>The environment and the shared state\<close>

text \<open>
  What the module loads or calls and does not define: \<open>str.lower\<close> of Python, the
  translation service, the tokenizer with the classification model (one call from the
  English text to the vector of logits), the label encoder's classes, the
  language detector, the two reference tables read from the CSV files, and the two
  formatters the f-string of the reply uses. A call that can fail returns the exception
  as a value. Every definition below takes the environment as a parameter, so a theorem
  about all environments holds for the real services.
\<close>

record env =
  str_lower :: "pystr \<Rightarrow> pystr"
  translate :: "pystr \<Rightarrow> py_error + pystr"
  model_logits :: "pystr \<Rightarrow> py_error + real list"
  le_classes :: "pystr list"
  detect :: "pystr \<Rightarrow> py_error + pystr"
  disease_desc :: "pystr \<Rightarrow> pyval option"
  disease_prec :: "pystr \<Rightarrow> pyval list option"
  fmt_2f :: "real \<Rightarrow> pystr"
  str_of :: "pyval \<Rightarrow> pystr"

text \<open>
  The calls that leave the process, in the order they are made. The log is not a variable
  of the source: it records which external calls a handler made.
\<close>

datatype event = Translate pystr | Classify pystr | Detect pystr

text \<open>The module's globals \<open>current_lang\<close> and \<open>chat_history\<close>, and the log of calls.\<close>

record state =
  current_lang :: pystr
  chat_history :: "pyval list"
  calls :: "event list"

definition initial_state :: state where
  "initial_state = \<lparr>current_lang = ascii ''en'', chat_history = [], calls = []\<rparr>"

definition log_call :: "event \<Rightarrow> state \<Rightarrow> state" where
  "log_call ev st = st\<lparr>calls := calls st @ [ev]\<rparr>"

section \<open>The symptom classifier adapter\<close>

text \<open>
  \<open>torch.softmax(logits, dim=1)\<close> on the one row of the batch. The numbers are modelled
  as reals. The float32 values of the source follow them up to rounding only: rounded
  probabilities can be equal where the real ones differ, and their sum can exceed 1 by
  a rounding error. What is proved of \<open>softmax\<close> below is proved of the real-valued model.
\<close>

definition softmax :: "real list \<Rightarrow> real list" where
  "softmax logits = map (\<lambda>x. exp x / sum_list (map exp logits)) logits"

text \<open>
  \<open>probs.argsort()\<close>: the indices of the vector, ordered by ascending value. numpy does
  not fix the order of equal values; this model keeps them in index order.
\<close>

definition argsort :: "real list \<Rightarrow> nat list" where
  "argsort probs = sort_key (\<lambda>i. probs ! i) [0..<length probs]"

text \<open>
  \<open>le.inverse_transform(idx)\<close>: the class names of the indices; an index outside the
  encoder's classes raises \<open>ValueError\<close>.
\<close>

definition inverse_transform :: "pystr list \<Rightarrow> nat list \<Rightarrow> py_error + pystr list" where
  "inverse_transform classes idx =
     (if list_all (\<lambda>i. i < length classes) idx then Inr (map (\<lambda>i. classes ! i) idx)
      else Inl ValueError)"

text \<open>\<open>disease_translations.get(d, {}).get(lang, d)\<close>.\<close>

definition translated_name :: "pystr \<Rightarrow> pystr \<Rightarrow> pystr" where
  "translated_name lang d =
     (case map_of disease_translations d of
        None \<Rightarrow> d
      | Some names \<Rightarrow> (case map_of names lang of None \<Rightarrow> d | Some t \<Rightarrow> t))"

definition zip3 :: "'a list \<Rightarrow> 'b list \<Rightarrow> 'c list \<Rightarrow> ('a \<times> 'b \<times> 'c) list" where
  "zip3 xs ys zs = zip xs (zip ys zs)"

definition predict_top ::
  "env \<Rightarrow> state \<Rightarrow> pystr \<Rightarrow> pystr option \<Rightarrow> int
     \<Rightarrow> state \<times> (py_error + (pystr \<times> pystr \<times> real) list)" where
  "predict_top e st symptoms_text lang top_n =
     (let st1 = log_call (Translate symptoms_text) st in
      case translate e symptoms_text of
        Inl err \<Rightarrow> (st1, Inl err)
      | Inr text_en \<Rightarrow>
          (let st2 = log_call (Classify text_en) st1 in
           case model_logits e text_en of
             Inl err \<Rightarrow> (st2, Inl err)
           | Inr logits \<Rightarrow>
               (let probs = softmax logits;
                    top_idx = rev (slice_from (- top_n) (argsort probs)) in
                case inverse_transform (le_classes e) top_idx of
                  Inl err \<Rightarrow> (st2, Inl err)
                | Inr diseases \<Rightarrow>
                    (let confidences = map (\<lambda>i. probs ! i) top_idx in
                     case lang of
                       Some l \<Rightarrow>
                         (st2, Inr (zip3 diseases (map (translated_name l) diseases) confidences))
                     | None \<Rightarrow>
                         (let st3 = log_call (Detect symptoms_text) st2 in
                          case detect e symptoms_text of
                            Inl err \<Rightarrow> (st3, Inl err)
                          | Inr l \<Rightarrow>
                              (st3, Inr (zip3 diseases (map (translated_name l) diseases)
                                           confidences)))))))"

text \<open>\<open>top[0]\<close> raises \<open>IndexError\<close> on an empty list.\<close>

definition predict_disease ::
  "env \<Rightarrow> state \<Rightarrow> pystr \<Rightarrow> pystr option \<Rightarrow> state \<times> (py_error + (pystr \<times> pystr \<times> real))" where
  "predict_disease e st symptoms_text lang =
     (case predict_top e st symptoms_text lang 10 of
        (st1, Inl err) \<Rightarrow> (st1, Inl err)
      | (st1, Inr []) \<Rightarrow> (st1, Inl IndexError)
      | (st1, Inr (best # others)) \<Rightarrow> (st1, Inr best))"

section \<open>The chatbot\<close>

text \<open>
  The loop over \<open>greetings.items()\<close>: the first language with a token in the lower-cased
  input returns \<open>greeting_responses.get(current_lang, greeting_responses["en"])\<close>; the
  loop variable \<open>lang\<close> is not used in the reply.
\<close>

definition greeting_response :: "pystr \<Rightarrow> pystr" where
  "greeting_response cur =
     (case map_of greeting_responses cur of None \<Rightarrow> greeting_en | Some r \<Rightarrow> r)"

fun greetings_loop :: "(pystr \<times> pystr list) list \<Rightarrow> pystr \<Rightarrow> pystr \<Rightarrow> pystr option" where
  "greetings_loop [] cur s = None"
| "greetings_loop ((lang, words) # rest) cur s =
     (if any_in words s then Some (greeting_response cur) else greetings_loop rest cur s)"

text \<open>The knowledge lookup of lines 142 and 143 of \<open>api.py\<close>.\<close>

definition lookup_description :: "env \<Rightarrow> pystr \<Rightarrow> pyval" where
  "lookup_description e disease_en =
     (case disease_desc e disease_en of None \<Rightarrow> PStr no_description | Some d \<Rightarrow> d)"

fun nonblank_str :: "pyval \<Rightarrow> bool" where
  "nonblank_str (PStr s) = (py_strip s \<noteq> [])"
| "nonblank_str v = False"

definition lookup_precautions :: "env \<Rightarrow> pystr \<Rightarrow> pyval list" where
  "lookup_precautions e disease_en =
     filter nonblank_str (case disease_prec e disease_en of None \<Rightarrow> [] | Some ps \<Rightarrow> ps)"

text \<open>The text of the reply. An f-string formats a string as itself.\<close>

definition fmt :: "env \<Rightarrow> pyval \<Rightarrow> pystr" where
  "fmt e v = (case v of PStr s \<Rightarrow> s | _ \<Rightarrow> str_of e v)"

definition precaution_lines :: "env \<Rightarrow> pyval list \<Rightarrow> pystr list" where
  "precaution_lines e ps =
     map (\<lambda>(i, p). str_nat (i + 1) @ ascii ''. '' @ fmt e p) (enumerate 0 ps)"

definition response_text :: "env \<Rightarrow> pystr \<Rightarrow> real \<Rightarrow> pyval \<Rightarrow> pyval list \<Rightarrow> pystr" where
  "response_text e disease_out prob description precautions =
     [0x1F4CB] @ ascii '' Expected Disease: '' @ disease_out @ ascii '' (Confidence: ''
       @ fmt_2f e prob @ ascii '')'' @ [10, 10]
     @ [0x1F4DD] @ ascii '' Description: '' @ fmt e description @ [10, 10]
     @ (if precautions \<noteq> []
        then [0x2705] @ ascii '' Precautions:'' @ [10] @ py_join [10] (precaution_lines e precautions)
        else [])"

definition chatbot :: "env \<Rightarrow> state \<Rightarrow> pystr \<Rightarrow> state \<times> (py_error + pyval)" where
  "chatbot e st user_input =
     (if any_in switch_ar (str_lower e user_input)
      then (st\<lparr>current_lang := ascii ''ar''\<rparr>, Inr (PStr ack_ar))
      else if any_in switch_en (str_lower e user_input)
      then (st\<lparr>current_lang := ascii ''en''\<rparr>, Inr (PStr ack_en))
      else if any_in switch_fr (str_lower e user_input)
      then (st\<lparr>current_lang := ascii ''fr''\<rparr>, Inr (PStr ack_fr))
      else
        (case greetings_loop greetings (current_lang st) (str_lower e user_input) of
           Some reply \<Rightarrow> (st, Inr (PStr reply))
         | None \<Rightarrow>
             (case predict_disease e st user_input (Some (current_lang st)) of
                (st1, Inl err) \<Rightarrow> (st1, Inl err)
              | (st1, Inr (disease_en, disease_out, prob)) \<Rightarrow>
                  (let description = lookup_description e disease_en;
                       precautions = lookup_precautions e disease_en
                   in (st1,
                       Inr (PDict
                         [(ascii ''response'',
                             PStr (response_text e disease_out prob description precautions)),
                          (ascii ''disease'', PStr disease_out),
                          (ascii ''description'', description),
                          (ascii ''precautions'', PList precautions),
                          (ascii ''confidence'', PFloat prob)]))))))"

section \<open>The \<open>/chat\<close> handler\<close>

definition top10_entry :: "pystr \<times> pystr \<times> real \<Rightarrow> pyval" where
  "top10_entry d =
     PDict [(ascii ''disease_en'', PStr (fst d)),
            (ascii ''disease_translated'', PStr (fst (snd d))),
            (ascii ''confidence'', PFloat (snd (snd d)))]"

definition chat_endpoint :: "env \<Rightarrow> state \<Rightarrow> pystr \<Rightarrow> state \<times> (py_error + pyval)" where
  "chat_endpoint e st message =
     (case chatbot e st message of
        (st1, Inl err) \<Rightarrow> (st1, Inl err)
      | (st1, Inr chat_resp) \<Rightarrow>
          (case subscript chat_resp (ascii ''response'') of
             Inl err \<Rightarrow> (st1, Inl err)
           | Inr bot_text \<Rightarrow>
               (let st2 = st1\<lparr>chat_history := chat_history st1 @
                            [PDict [(ascii ''user'', PStr message), (ascii ''bot'', bot_text)]]\<rparr>
                in case predict_top e st2 message (Some (current_lang st2)) 10 of
                     (st3, Inl err) \<Rightarrow> (st3, Inl err)
                   | (st3, Inr top10) \<Rightarrow>
                       (st3,
                        Inr (PDict
                          [(ascii ''chat'', chat_resp),
                           (ascii ''history'', PList (chat_history st3)),
                           (ascii ''top10'', PList (map top10_entry top10))])))))"

section \<open>The doctor lookup client (\<open>doctors_api.py\<close>)\<close>

text \<open>
  What \<open>requests.get\<close> gives: it raises a \<open>RequestException\<close> (no connection, timeout),
  whose text is kept, or it returns a response. A response has its status code, the text
  of the \<open>HTTPError\<close> that \<open>raise_for_status\<close> raises for it, and what \<open>json()\<close> parses
  the body to (\<open>None\<close> when the body is not JSON and \<open>json()\<close> raises \<open>ValueError\<close>).
\<close>

datatype http_result =
    RequestFailed pystr
  | Response nat pystr "pyval option"

text \<open>\<open>raise_for_status\<close> of the requests library raises for the 4xx and 5xx codes only.\<close>

definition raises_for_status :: "nat \<Rightarrow> bool" where
  "raises_for_status status_code = (400 \<le> status_code \<and> status_code < 600)"

definition error_payload :: "pystr \<Rightarrow> pyval" where
  "error_payload msg = PDict [(ascii ''error'', PStr (ascii ''Failed to fetch doctors: '' @ msg))]"

definition no_doctors_payload :: pyval where
  "no_doctors_payload =
     PDict [(ascii ''message'', PStr (ascii ''No doctors found for the given disease or symptom.''))]"

text \<open>Lines 64 to 74: one entry of the structured list.\<close>

fun doctor_entry :: "pyval \<Rightarrow> pyval" where
  "doctor_entry (PDict doc) =
     PDict [(ascii ''name'', dict_get doc (ascii ''name'')),
            (ascii ''specialization'', dict_get doc (ascii ''specialization'')),
            (ascii ''hospital'', dict_get doc (ascii ''hospital'')),
            (ascii ''address'', dict_get doc (ascii ''address'')),
            (ascii ''contact'', dict_get doc (ascii ''phone'')),
            (ascii ''rating'', dict_get doc (ascii ''rating''))]"
| "doctor_entry doc = PDict [(ascii ''raw_entry'', doc)]"

text \<open>
  Lines 53 to 56: a dictionary with the key \<open>doctors\<close> is unwrapped, whatever the key is
  bound to; any other object that is not a list ends the call (\<open>Inl\<close>, the payload
  returned).
\<close>

fun unwrap_doctors :: "pyval \<Rightarrow> pyval + pyval" where
  "unwrap_doctors (PDict kvs) =
     (case map_of kvs (ascii ''doctors'') of
        Some v \<Rightarrow> Inr v
      | None \<Rightarrow>
          Inl (PDict [(ascii ''message'', PStr (ascii ''Unexpected API response structure.'')),
                      (ascii ''raw'', PDict kvs)]))"
| "unwrap_doctors (PList xs) = Inr (PList xs)"
| "unwrap_doctors v =
     Inl (PDict [(ascii ''message'', PStr (ascii ''Unexpected API response structure.'')),
                 (ascii ''raw'', v)])"

text \<open>Lines 53 to 76, from the parsed body on.\<close>

definition shape_doctors :: "pyval \<Rightarrow> py_error + pyval" where
  "shape_doctors parsed =
     (case unwrap_doctors parsed of
        Inl payload \<Rightarrow> Inr payload
      | Inr data \<Rightarrow>
          if \<not> truthy data then Inr no_doctors_payload
          else
            (case py_iter data of
               Inl err \<Rightarrow> Inl err
             | Inr docs \<Rightarrow>
                 (let doctors_list = map doctor_entry docs in
                  Inr (PDict [(ascii ''count'', PInt (int (length doctors_list))),
                              (ascii ''doctors'', PList doctors_list)]))))"

text \<open>The query parameters: an argument that is \<open>None\<close> or empty is left out.\<close>

definition query_params :: "pystr option \<Rightarrow> pystr option \<Rightarrow> (pystr \<times> pystr) list" where
  "query_params disease symptom =
     (case disease of None \<Rightarrow> [] | Some d \<Rightarrow> if d = [] then [] else [(ascii ''disease'', d)])
     @ (case symptom of None \<Rightarrow> [] | Some s \<Rightarrow> if s = [] then [] else [(ascii ''symptom'', s)])"

text \<open>
  \<open>get_doctors\<close>; \<open>http\<close> is the directory service, from the query parameters to what
  \<open>requests.get\<close> gives. \<open>Inl\<close> is an exception that leaves the function.
\<close>

definition get_doctors ::
  "((pystr \<times> pystr) list \<Rightarrow> http_result) \<Rightarrow> pystr option \<Rightarrow> pystr option \<Rightarrow> py_error + pyval" where
  "get_doctors http disease symptom =
     (case http (query_params disease symptom) of
        RequestFailed msg \<Rightarrow> Inr (error_payload msg)
      | Response status_code http_error body \<Rightarrow>
          if raises_for_status status_code then Inr (error_payload http_error)
          else
            (case body of
               None \<Rightarrow>
                 Inr (PDict [(ascii ''error'',
                              PStr (ascii ''Invalid response format from Doctors API.''))])
             | Some parsed \<Rightarrow> shape_doctors parsed))"

section \<open>A concrete environment\<close>

text \<open>
  An environment to run the handlers on: \<open>lower\<close> on the ASCII letters (what Python's
  \<open>lower\<close> does to a string whose cased characters are all ASCII), a translation that
  returns its input, a classifier with three classes and fixed logits (the probabilities
  are 0.1, 0.7 and 0.2), and small reference tables.
\<close>

definition ascii_lower :: "pystr \<Rightarrow> pystr" where
  "ascii_lower s = map (\<lambda>c. if 65 \<le> c \<and> c \<le> 90 then c + 32 else c) s"

definition demo_env :: env where
  "demo_env =
     \<lparr>str_lower = ascii_lower,
      translate = (\<lambda>s. Inr s),
      model_logits = (\<lambda>s. Inr [0, ln 7, ln 2]),
      le_classes = [ascii ''Diabetes'', ascii ''Malaria'', ascii ''Migraine''],
      detect = (\<lambda>s. Inr (ascii ''en'')),
      disease_desc = map_of [(ascii ''Malaria'', PStr (ascii ''An infectious disease.''))],
      disease_prec =
        map_of [(ascii ''Malaria'',
                 [PStr (ascii ''Consult nearest hospital''), PNaN, PStr (ascii '' ''),
                  PStr (ascii ''avoid oily food'')])],
      fmt_2f = (\<lambda>r. ascii ''0.70''),
      str_of = (\<lambda>v. ascii ''nan'')\<rparr>"

section \<open>Notions the properties are stated with\<close>

text \<open>Whether a payload is a dictionary that has the key.\<close>

fun has_key :: "pyval \<Rightarrow> pystr \<Rightarrow> bool" where
  "has_key (PDict kvs) k = (map_of kvs k \<noteq> None)"
| "has_key v k = False"

text \<open>
  The script of a character: a letter of the Latin alphabet (ASCII, Latin-1 Supplement,
  Latin Extended-A and B) or a character of the Arabic block. French and English text is
  written in Latin letters, Arabic text in Arabic letters.
\<close>

definition is_latin_letter :: "nat \<Rightarrow> bool" where
  "is_latin_letter c =
     ((0x41 \<le> c \<and> c \<le> 0x5A) \<or> (0x61 \<le> c \<and> c \<le> 0x7A) \<or> (0xC0 \<le> c \<and> c \<le> 0x24F))"

definition is_arabic_letter :: "nat \<Rightarrow> bool" where
  "is_arabic_letter c = (0x600 \<le> c \<and> c \<le> 0x6FF)"

section \<open>The paths through the chatbot\<close>

lemma any_in_iff: "any_in words s \<longleftrightarrow> (\<exists>w \<in> set words. sublist w s)"
  by (simp add: any_in_def list_ex_iff)

lemma predict_top_frame:
  "current_lang (fst (predict_top e st t lang n)) = current_lang st \<and>
   chat_history (fst (predict_top e st t lang n)) = chat_history st"
  by (simp add: predict_top_def log_call_def Let_def split: sum.splits option.splits)

lemma predict_disease_frame:
  "current_lang (fst (predict_disease e st t lang)) = current_lang st \<and>
   chat_history (fst (predict_disease e st t lang)) = chat_history st"
proof -
  obtain st1 r where p: "predict_top e st t lang 10 = (st1, r)"
    by (cases "predict_top e st t lang 10")
  have "fst (predict_disease e st t lang) = st1"
    using p by (simp add: predict_disease_def split: sum.splits list.splits)
  moreover have "st1 = fst (predict_top e st t lang 10)"
    using p by simp
  ultimately show ?thesis
    using predict_top_frame [of e st t lang 10] by simp
qed

lemma greetings_loop_reply:
  "greetings_loop gs cur s = Some r \<Longrightarrow> r = greeting_response cur"
  by (induction gs cur s rule: greetings_loop.induct) (auto split: if_splits)

lemma greetings_loop_match:
  "(lang, ws) \<in> set gs \<Longrightarrow> any_in ws s \<Longrightarrow> greetings_loop gs cur s = Some (greeting_response cur)"
  by (induction gs cur s rule: greetings_loop.induct) auto

lemma greetings_loop_None:
  "greetings_loop gs cur s = None \<Longrightarrow> (lang, ws) \<in> set gs \<Longrightarrow> \<not> any_in ws s"
  using greetings_loop_match by fastforce

lemma chatbot_no_switch:
  assumes "\<not> any_in switch_ar (str_lower e inp)" "\<not> any_in switch_en (str_lower e inp)"
    "\<not> any_in switch_fr (str_lower e inp)"
  shows "chatbot e st inp =
     (case greetings_loop greetings (current_lang st) (str_lower e inp) of
           Some reply \<Rightarrow> (st, Inr (PStr reply))
         | None \<Rightarrow>
             (case predict_disease e st inp (Some (current_lang st)) of
                (st1, Inl err) \<Rightarrow> (st1, Inl err)
              | (st1, Inr (disease_en, disease_out, prob)) \<Rightarrow>
                  (st1,
                       Inr (PDict
                         [(ascii ''response'',
                             PStr (response_text e disease_out prob (lookup_description e disease_en) (lookup_precautions e disease_en))),
                          (ascii ''disease'', PStr disease_out),
                          (ascii ''description'', lookup_description e disease_en),
                          (ascii ''precautions'', PList (lookup_precautions e disease_en)),
                          (ascii ''confidence'', PFloat prob)]))))"
  unfolding chatbot_def Let_def using assms by simp

lemma chatbot_greeting:
  assumes "\<not> any_in switch_ar (str_lower e inp)" "\<not> any_in switch_en (str_lower e inp)"
    "\<not> any_in switch_fr (str_lower e inp)"
    and "(lang, ws) \<in> set greetings" "w \<in> set ws" "sublist w (str_lower e inp)"
  shows "chatbot e st inp = (st, Inr (PStr (greeting_response (current_lang st))))"
proof -
  have "any_in ws (str_lower e inp)"
    using assms(5,6) by (auto simp: any_in_iff)
  then have "greetings_loop greetings (current_lang st) (str_lower e inp)
      = Some (greeting_response (current_lang st))"
    using assms(4) by (rule greetings_loop_match [rotated])
  then show ?thesis
    using assms(1-3) by (simp add: chatbot_no_switch)
qed

lemma chatbot_frame:
  assumes "\<not> any_in switch_ar (str_lower e inp)" "\<not> any_in switch_en (str_lower e inp)"
    "\<not> any_in switch_fr (str_lower e inp)"
  shows "current_lang (fst (chatbot e st inp)) = current_lang st"
proof (cases "greetings_loop greetings (current_lang st) (str_lower e inp)")
  case (Some r)
  then show ?thesis using assms by (simp add: chatbot_no_switch)
next
  case None
  obtain st1 r where p: "predict_disease e st inp (Some (current_lang st)) = (st1, r)"
    by (cases "predict_disease e st inp (Some (current_lang st))")
  have "fst (chatbot e st inp) = st1"
    using assms None p by (simp add: chatbot_no_switch split: sum.splits prod.splits)
  then show ?thesis
    using predict_disease_frame [of e st inp "Some (current_lang st)"] p by simp
qed

lemma greeting_response_cases:
  "greeting_response cur = (if cur = ascii ''ar'' then greeting_ar else if cur = ascii ''fr'' then greeting_fr else greeting_en)"
  by (simp add: greeting_response_def greeting_responses_def ascii_def)

section \<open>Properties of the greeting detector\<close>

text \<open>The definitions a run on a concrete input unfolds.\<close>

lemmas eval_defs = any_in_def switch_ar_def switch_en_def switch_fr_def ascii_def ascii_lower_def
  greetings_def sublist_code(3) prefix_code(2)

text \<open>
  Claim C4. When the lower-cased input holds no language-switch phrase and holds a token
  of any language's greeting list, the chatbot returns the greeting reply of the current
  shared language, whichever language the token belongs to, and leaves the state as it
  was. The reply is \<open>greeting_responses.get(current_lang, greeting_responses["en"])\<close>: the
  Arabic, English or French sentence for the codes \<open>ar\<close>, \<open>en\<close>, \<open>fr\<close>, and the English
  one for any other value of the variable. In particular the
  input \<open>hello\<close> with current language \<open>en\<close> gives exactly the English sentence.
\<close>

theorem chatbot_greeting_reply_current_lang:
  "(\<not> any_in switch_ar (str_lower e inp) \<and> \<not> any_in switch_en (str_lower e inp) \<and>
    \<not> any_in switch_fr (str_lower e inp) \<and>
    (lang, ws) \<in> set greetings \<and> w \<in> set ws \<and> sublist w (str_lower e inp)
    \<longrightarrow> chatbot e st inp = (st, Inr (PStr (greeting_response (current_lang st))))) \<and>
   greeting_response (ascii ''ar'') = greeting_ar \<and>
   greeting_response (ascii ''en'') = greeting_en \<and>
   greeting_response (ascii ''fr'') = greeting_fr \<and>
   (cur \<noteq> ascii ''ar'' \<and> cur \<noteq> ascii ''fr'' \<longrightarrow> greeting_response cur = greeting_en) \<and>
   (str_lower e (ascii ''hello'') = ascii ''hello'' \<and> current_lang st = ascii ''en''
    \<longrightarrow> snd (chatbot e st (ascii ''hello'')) =
          Inr (PStr (ascii ''Hello '' @ [0x1F44B] @ ascii '', tell me your symptoms?'')))"
proof -
  have general: "chatbot e st inp = (st, Inr (PStr (greeting_response (current_lang st))))"
    if "\<not> any_in switch_ar (str_lower e inp)" "\<not> any_in switch_en (str_lower e inp)"
      "\<not> any_in switch_fr (str_lower e inp)"
      "(lang, ws) \<in> set greetings" "w \<in> set ws" "sublist w (str_lower e inp)"
    using that by (rule chatbot_greeting)
  have replies: "greeting_response (ascii ''ar'') = greeting_ar"
    "greeting_response (ascii ''en'') = greeting_en"
    "greeting_response (ascii ''fr'') = greeting_fr"
    by (simp_all add: greeting_response_cases) (simp_all add: ascii_def)
  have hello: "snd (chatbot e st (ascii ''hello'')) =
      Inr (PStr (ascii ''Hello '' @ [0x1F44B] @ ascii '', tell me your symptoms?''))"
    if low: "str_lower e (ascii ''hello'') = ascii ''hello''" and cur: "current_lang st = ascii ''en''"
  proof -
    have "chatbot e st (ascii ''hello'') = (st, Inr (PStr (greeting_response (current_lang st))))"
    proof (rule chatbot_greeting)
      show "\<not> any_in switch_ar (str_lower e (ascii ''hello''))"
        unfolding low by (simp add: eval_defs)
      show "\<not> any_in switch_en (str_lower e (ascii ''hello''))"
        unfolding low by (simp add: eval_defs)
      show "\<not> any_in switch_fr (str_lower e (ascii ''hello''))"
        unfolding low by (simp add: eval_defs)
      show "(ascii ''en'', [ascii ''hello'', ascii ''hi'', ascii ''hey'']) \<in> set greetings"
        by (simp add: greetings_def)
      show "ascii ''hello'' \<in> set [ascii ''hello'', ascii ''hi'', ascii ''hey'']"
        by simp
      show "sublist (ascii ''hello'') (str_lower e (ascii ''hello''))"
        unfolding low by simp
    qed
    then show ?thesis
      using cur replies(2) by (simp add: greeting_en_def)
  qed
  have default: "greeting_response cur = greeting_en"
    if "cur \<noteq> ascii ''ar''" "cur \<noteq> ascii ''fr''"
    using that by (simp add: greeting_response_cases)
  from general replies default hello show ?thesis by blast
qed

text \<open>
  The theorem at work: \<open>hello\<close> with current language \<open>en\<close>, and the English token in
  \<open>Hello doctor\<close> answered in French when the current language is \<open>fr\<close>.
\<close>

theorem chatbot_greeting_reply_current_lang_witness:
  "chatbot demo_env initial_state (ascii ''hello'') = (initial_state, Inr (PStr greeting_en)) \<and>
   chatbot demo_env (initial_state\<lparr>current_lang := ascii ''fr''\<rparr>) (ascii ''Hello doctor'')
     = (initial_state\<lparr>current_lang := ascii ''fr''\<rparr>, Inr (PStr greeting_fr)) \<and>
   snd (chatbot demo_env initial_state (ascii ''hello'')) =
     Inr (PStr (ascii ''Hello '' @ [0x1F44B] @ ascii '', tell me your symptoms?''))"
proof -
  have en: "(ascii ''en'', [ascii ''hello'', ascii ''hi'', ascii ''hey'']) \<in> set greetings"
    by (simp add: greetings_def)
  have mem: "ascii ''hello'' \<in> set [ascii ''hello'', ascii ''hi'', ascii ''hey'']"
    by simp
  have a: "\<not> any_in switch_ar (str_lower demo_env (ascii ''hello'')) \<and>
      \<not> any_in switch_en (str_lower demo_env (ascii ''hello'')) \<and>
      \<not> any_in switch_fr (str_lower demo_env (ascii ''hello'')) \<and>
      sublist (ascii ''hello'') (str_lower demo_env (ascii ''hello''))"
    by (simp add: demo_env_def eval_defs)
  have b: "\<not> any_in switch_ar (str_lower demo_env (ascii ''Hello doctor'')) \<and>
      \<not> any_in switch_en (str_lower demo_env (ascii ''Hello doctor'')) \<and>
      \<not> any_in switch_fr (str_lower demo_env (ascii ''Hello doctor'')) \<and>
      sublist (ascii ''hello'') (str_lower demo_env (ascii ''Hello doctor''))"
    by (simp add: demo_env_def eval_defs)
  have c: "str_lower demo_env (ascii ''hello'') = ascii ''hello'' \<and>
      current_lang initial_state = ascii ''en''"
    by (simp add: demo_env_def initial_state_def ascii_lower_def ascii_def)
  note t1 = chatbot_greeting_reply_current_lang
    [of demo_env "ascii ''hello''" "ascii ''en''" "[ascii ''hello'', ascii ''hi'', ascii ''hey'']"
      "ascii ''hello''" initial_state "ascii ''en''"]
  note t2 = chatbot_greeting_reply_current_lang
    [of demo_env "ascii ''Hello doctor''" "ascii ''en''"
      "[ascii ''hello'', ascii ''hi'', ascii ''hey'']"
      "ascii ''hello''" "initial_state\<lparr>current_lang := ascii ''fr''\<rparr>" "ascii ''en''"]
  have "chatbot demo_env initial_state (ascii ''hello'') = (initial_state, Inr (PStr greeting_en))"
    using t1 a en mem c by simp
  moreover have "chatbot demo_env (initial_state\<lparr>current_lang := ascii ''fr''\<rparr>) (ascii ''Hello doctor'')
     = (initial_state\<lparr>current_lang := ascii ''fr''\<rparr>, Inr (PStr greeting_fr))"
    using t2 b en mem by simp
  moreover have "snd (chatbot demo_env initial_state (ascii ''hello'')) =
     Inr (PStr (ascii ''Hello '' @ [0x1F44B] @ ascii '', tell me your symptoms?''))"
    using t1 c by blast
  ultimately show ?thesis by blast
qed

text \<open>
  Claim C8. Greeting matching is by substring of the lower-cased input. When that text
  holds no language-switch phrase and holds a greeting token anywhere, also inside a
  longer word (\<open>hi\<close> inside \<open>chills\<close>), the chatbot returns one of the three greeting
  replies and makes no external call: neither the translation nor the classifier is
  invoked, and the state is unchanged.
\<close>

theorem chatbot_greeting_substring_skips_classifier:
  "(\<not> any_in switch_ar (str_lower e inp) \<and> \<not> any_in switch_en (str_lower e inp) \<and>
    \<not> any_in switch_fr (str_lower e inp) \<and>
    (lang, ws) \<in> set greetings \<and> w \<in> set ws \<and> sublist w (str_lower e inp)
    \<longrightarrow> (\<exists>reply. snd (chatbot e st inp) = Inr (PStr reply) \<and>
                 (reply = greeting_ar \<or> reply = greeting_en \<or> reply = greeting_fr)) \<and>
        calls (fst (chatbot e st inp)) = calls st \<and>
        fst (chatbot e st inp) = st) \<and>
   sublist (ascii ''hi'') (ascii ''chills'') \<and>
   (ascii ''en'', [ascii ''hello'', ascii ''hi'', ascii ''hey'']) \<in> set greetings"
proof -
  have "(\<exists>reply. snd (chatbot e st inp) = Inr (PStr reply) \<and>
                 (reply = greeting_ar \<or> reply = greeting_en \<or> reply = greeting_fr)) \<and>
        calls (fst (chatbot e st inp)) = calls st \<and> fst (chatbot e st inp) = st"
    if "\<not> any_in switch_ar (str_lower e inp)" "\<not> any_in switch_en (str_lower e inp)"
      "\<not> any_in switch_fr (str_lower e inp)"
      "(lang, ws) \<in> set greetings" "w \<in> set ws" "sublist w (str_lower e inp)"
  proof -
    have "chatbot e st inp = (st, Inr (PStr (greeting_response (current_lang st))))"
      using that by (rule chatbot_greeting)
    then show ?thesis
      by (simp add: greeting_response_cases)
  qed
  moreover have "sublist (ascii ''hi'') (ascii ''chills'')"
    by (simp add: eval_defs)
  moreover have "(ascii ''en'', [ascii ''hello'', ascii ''hi'', ascii ''hey'']) \<in> set greetings"
    by (simp add: greetings_def)
  ultimately show ?thesis by blast
qed

text \<open>
  \<open>I have chills\<close> is answered with the greeting and no call is logged, although the
  environment has a classifier that would answer.
\<close>

theorem chatbot_greeting_substring_skips_classifier_witness:
  "chatbot demo_env initial_state (ascii ''I have chills'') =
     (initial_state, Inr (PStr greeting_en)) \<and>
   calls (fst (chatbot demo_env initial_state (ascii ''I have chills''))) = []"
proof -
  have a: "\<not> any_in switch_ar (str_lower demo_env (ascii ''I have chills'')) \<and>
      \<not> any_in switch_en (str_lower demo_env (ascii ''I have chills'')) \<and>
      \<not> any_in switch_fr (str_lower demo_env (ascii ''I have chills'')) \<and>
      sublist (ascii ''hi'') (str_lower demo_env (ascii ''I have chills''))"
    by (simp add: demo_env_def eval_defs)
  have mem: "ascii ''hi'' \<in> set [ascii ''hello'', ascii ''hi'', ascii ''hey'']"
    by simp
  note t = chatbot_greeting_substring_skips_classifier
    [of demo_env "ascii ''I have chills''" "ascii ''en''"
      "[ascii ''hello'', ascii ''hi'', ascii ''hey'']" "ascii ''hi''" initial_state]
  from t a mem have r: "(\<exists>reply. snd (chatbot demo_env initial_state (ascii ''I have chills''))
        = Inr (PStr reply)) \<and>
      calls (fst (chatbot demo_env initial_state (ascii ''I have chills''))) = calls initial_state \<and>
      fst (chatbot demo_env initial_state (ascii ''I have chills'')) = initial_state"
    by blast
  have "chatbot demo_env initial_state (ascii ''I have chills'') =
     (initial_state, Inr (PStr greeting_en))"
    by (simp add: chatbot_def demo_env_def initial_state_def eval_defs greeting_response_cases)
  then show ?thesis
    using r by (simp add: initial_state_def)
qed

section \<open>The shared language state\<close>

text \<open>The classifier of the concrete environment, evaluated.\<close>

lemma demo_softmax: "softmax [0, ln 7, ln 2] = [1 / 10, 7 / 10, 1 / 5]"
  by (simp add: softmax_def)

lemma demo_argsort: "argsort [1 / 10, 7 / 10, 1 / 5] = [0, 2, 1]"
proof -
  have "[0..<length [1 / 10, 7 / 10, 1 / 5 :: real]] = [0, 1, 2]"
    by (simp add: upt_rec)
  then show ?thesis
    by (simp add: argsort_def)
qed

lemma demo_predict_top_10:
  "predict_top demo_env st t (Some l) 10 =
     (st\<lparr>calls := calls st @ [Translate t, Classify t]\<rparr>,
      Inr [(ascii ''Malaria'', translated_name l (ascii ''Malaria''), 7 / 10),
           (ascii ''Migraine'', translated_name l (ascii ''Migraine''), 1 / 5),
           (ascii ''Diabetes'', translated_name l (ascii ''Diabetes''), 1 / 10)])"
  unfolding predict_top_def Let_def
  by (simp add: demo_env_def demo_softmax demo_argsort slice_from_def inverse_transform_def
      zip3_def log_call_def)

text \<open>
  Claim C10. When the lower-cased input holds none of the six language-switch phrases,
  the chatbot leaves \<open>current_lang\<close> as it was, whether it answers with a greeting, with a
  prediction or with an exception of an external call; the chat history is not written
  by the chatbot either.
\<close>

theorem chatbot_keeps_current_lang:
  "length (switch_ar @ switch_en @ switch_fr) = 6 \<and>
   ((\<forall>phrase \<in> set (switch_ar @ switch_en @ switch_fr). \<not> sublist phrase (str_lower e inp))
    \<longrightarrow> current_lang (fst (chatbot e st inp)) = current_lang st)"
proof -
  have "length (switch_ar @ switch_en @ switch_fr) = 6"
    by (simp add: switch_ar_def switch_en_def switch_fr_def)
  moreover have "current_lang (fst (chatbot e st inp)) = current_lang st"
    if "\<forall>phrase \<in> set (switch_ar @ switch_en @ switch_fr). \<not> sublist phrase (str_lower e inp)"
  proof (rule chatbot_frame)
    show "\<not> any_in switch_ar (str_lower e inp)" using that by (auto simp: any_in_iff)
    show "\<not> any_in switch_en (str_lower e inp)" using that by (auto simp: any_in_iff)
    show "\<not> any_in switch_fr (str_lower e inp)" using that by (auto simp: any_in_iff)
  qed
  ultimately show ?thesis by blast
qed

text \<open>
  A symptom text runs the classifier and keeps the language; the same text with a switch
  phrase in it changes the language.
\<close>

theorem chatbot_keeps_current_lang_witness:
  "current_lang (fst (chatbot demo_env (initial_state\<lparr>current_lang := ascii ''fr''\<rparr>)
      (ascii ''fever and cough''))) = ascii ''fr'' \<and>
   calls (fst (chatbot demo_env (initial_state\<lparr>current_lang := ascii ''fr''\<rparr>)
      (ascii ''fever and cough''))) =
     [Translate (ascii ''fever and cough''), Classify (ascii ''fever and cough'')] \<and>
   current_lang (fst (chatbot demo_env (initial_state\<lparr>current_lang := ascii ''fr''\<rparr>)
      (ascii ''fever, speak arabic''))) = ascii ''ar''"
proof -
  have a: "\<forall>phrase \<in> set (switch_ar @ switch_en @ switch_fr).
      \<not> sublist phrase (str_lower demo_env (ascii ''fever and cough''))"
    by (simp add: demo_env_def eval_defs)
  have "current_lang (fst (chatbot demo_env (initial_state\<lparr>current_lang := ascii ''fr''\<rparr>)
      (ascii ''fever and cough''))) = ascii ''fr''"
    using chatbot_keeps_current_lang
      [of demo_env "ascii ''fever and cough''" "initial_state\<lparr>current_lang := ascii ''fr''\<rparr>"] a
    by simp
  moreover have "calls (fst (chatbot demo_env (initial_state\<lparr>current_lang := ascii ''fr''\<rparr>)
      (ascii ''fever and cough''))) =
     [Translate (ascii ''fever and cough''), Classify (ascii ''fever and cough'')]"
  proof -
    have "\<not> any_in switch_ar (str_lower demo_env (ascii ''fever and cough'')) \<and>
        \<not> any_in switch_en (str_lower demo_env (ascii ''fever and cough'')) \<and>
        \<not> any_in switch_fr (str_lower demo_env (ascii ''fever and cough'')) \<and>
        greetings_loop greetings (ascii ''fr'') (str_lower demo_env (ascii ''fever and cough''))
          = None"
      by (simp add: demo_env_def eval_defs)
    then show ?thesis
      by (simp add: chatbot_no_switch predict_disease_def demo_predict_top_10 initial_state_def)
  qed
  moreover have "current_lang (fst (chatbot demo_env (initial_state\<lparr>current_lang := ascii ''fr''\<rparr>)
      (ascii ''fever, speak arabic''))) = ascii ''ar''"
    by (simp add: chatbot_def demo_env_def initial_state_def eval_defs)
  ultimately show ?thesis by blast
qed

section \<open>Properties of the language router\<close>

lemma chatbot_switch_ar:
  "any_in switch_ar (str_lower e inp) \<Longrightarrow>
   chatbot e st inp = (st\<lparr>current_lang := ascii ''ar''\<rparr>, Inr (PStr ack_ar))"
  by (simp add: chatbot_def)

lemma chatbot_switch_en:
  "\<not> any_in switch_ar (str_lower e inp) \<Longrightarrow> any_in switch_en (str_lower e inp) \<Longrightarrow>
   chatbot e st inp = (st\<lparr>current_lang := ascii ''en''\<rparr>, Inr (PStr ack_en))"
  by (simp add: chatbot_def)

lemma chatbot_switch_fr:
  "\<not> any_in switch_ar (str_lower e inp) \<Longrightarrow> \<not> any_in switch_en (str_lower e inp) \<Longrightarrow>
   any_in switch_fr (str_lower e inp) \<Longrightarrow>
   chatbot e st inp = (st\<lparr>current_lang := ascii ''fr''\<rparr>, Inr (PStr ack_fr))"
  by (simp add: chatbot_def)

text \<open>
  Claim C3. The state update and the order of the three tests are as the claim says
  (\<open>chatbot_switch_ar\<close>, \<open>chatbot_switch_en\<close>, \<open>chatbot_switch_fr\<close>). The acknowledgment
  of the switch to French is not written in French: for \<open>speak french\<close> the chatbot sets
  the language to \<open>fr\<close> and returns a sentence that has Arabic letters and no Latin
  letter, while the English acknowledgment and the French greeting reply are written in
  Latin letters.
\<close>

theorem chatbot_speak_french_acknowledged_in_arabic:
  "chatbot demo_env initial_state (ascii ''speak french'') =
     (initial_state\<lparr>current_lang := ascii ''fr''\<rparr>, Inr (PStr ack_fr)) \<and>
   list_ex is_arabic_letter ack_fr \<and> \<not> list_ex is_latin_letter ack_fr \<and>
   list_ex is_arabic_letter ack_ar \<and> \<not> list_ex is_latin_letter ack_ar \<and>
   list_ex is_latin_letter ack_en \<and> \<not> list_ex is_arabic_letter ack_en \<and>
   list_ex is_latin_letter greeting_fr \<and> \<not> list_ex is_arabic_letter greeting_fr"
proof -
  have "chatbot demo_env initial_state (ascii ''speak french'') =
     (initial_state\<lparr>current_lang := ascii ''fr''\<rparr>, Inr (PStr ack_fr))"
    by (simp add: chatbot_def demo_env_def eval_defs)
  moreover have "list_ex is_arabic_letter ack_fr \<and> \<not> list_ex is_latin_letter ack_fr"
    by (simp add: ack_fr_def is_arabic_letter_def is_latin_letter_def)
  moreover have "list_ex is_arabic_letter ack_ar \<and> \<not> list_ex is_latin_letter ack_ar"
    by (simp add: ack_ar_def is_arabic_letter_def is_latin_letter_def)
  moreover have "list_ex is_latin_letter ack_en \<and> \<not> list_ex is_arabic_letter ack_en"
    by (simp add: ack_en_def ascii_def is_arabic_letter_def is_latin_letter_def)
  moreover have "list_ex is_latin_letter greeting_fr \<and> \<not> list_ex is_arabic_letter greeting_fr"
    by (simp add: greeting_fr_def ascii_def is_arabic_letter_def is_latin_letter_def)
  ultimately show ?thesis by blast
qed

section \<open>Properties of the \<open>/chat\<close> handler\<close>

lemma chat_endpoint_text_reply:
  "chatbot e st message = (st1, Inr (PStr reply)) \<Longrightarrow>
   chat_endpoint e st message = (st1, Inl TypeError)"
  by (simp add: chat_endpoint_def)

lemma chat_endpoint_prediction:
  assumes "chatbot e st message = (st1, Inr (PDict kvs))"
    and "map_of kvs (ascii ''response'') = Some bot_text"
    and "predict_top e
           (st1\<lparr>chat_history := chat_history st1 @
               [PDict [(ascii ''user'', PStr message), (ascii ''bot'', bot_text)]]\<rparr>)
           message (Some (current_lang st1)) 10 = (st3, Inr top10)"
  shows "chat_endpoint e st message =
     (st3, Inr (PDict [(ascii ''chat'', PDict kvs),
                       (ascii ''history'', PList (chat_history st3)),
                       (ascii ''top10'', PList (map top10_entry top10))]))"
  unfolding chat_endpoint_def Let_def using assms by simp

text \<open>
  Claim C1. The handler reads \<open>chat_resp["response"]\<close>, and for a greeting or a language
  switch \<open>chat_resp\<close> is a string: the subscript raises \<open>TypeError\<close> and the request ends
  with no response object (\<open>chat_endpoint_text_reply\<close>). A language switch has changed
  \<open>current_lang\<close> by then. Only a prediction reply, a dictionary with the five keys,
  gives the object of the claim (\<open>chat_endpoint_prediction\<close>).
\<close>

theorem chat_endpoint_greeting_raises:
  "chat_endpoint demo_env initial_state (ascii ''hello'') = (initial_state, Inl TypeError) \<and>
   chat_endpoint demo_env initial_state (ascii ''speak arabic'') =
     (initial_state\<lparr>current_lang := ascii ''ar''\<rparr>, Inl TypeError)"
proof -
  have "chatbot demo_env initial_state (ascii ''hello'') = (initial_state, Inr (PStr greeting_en))"
    by (simp add: chatbot_def demo_env_def initial_state_def eval_defs greeting_response_cases)
  then have "chat_endpoint demo_env initial_state (ascii ''hello'') = (initial_state, Inl TypeError)"
    by (rule chat_endpoint_text_reply)
  moreover have "chatbot demo_env initial_state (ascii ''speak arabic'') =
      (initial_state\<lparr>current_lang := ascii ''ar''\<rparr>, Inr (PStr ack_ar))"
    by (simp add: chatbot_def demo_env_def eval_defs)
  then have "chat_endpoint demo_env initial_state (ascii ''speak arabic'') =
      (initial_state\<lparr>current_lang := ascii ''ar''\<rparr>, Inl TypeError)"
    by (rule chat_endpoint_text_reply)
  ultimately show ?thesis by blast
qed

section \<open>Properties of the ranking of \<open>predict_top\<close>\<close>

lemma slice_from_zero: "slice_from (- 0) xs = xs"
  by (simp add: slice_from_def)

lemma length_slice_from_positive:
  "0 < n \<Longrightarrow> length (slice_from (- n) xs) = min (nat n) (length xs)"
  by (auto simp: slice_from_def)

lemma sorted_argsort: "sorted (map (\<lambda>i. probs ! i) (argsort probs))"
  by (simp add: argsort_def)

lemma set_argsort: "set (argsort probs) = {0..<length probs}"
  by (simp add: argsort_def)

lemma sorted_slice_argsort:
  "sorted (map (\<lambda>i. probs ! i) (slice_from k (argsort probs)))"
proof -
  have "sorted (drop m (map (\<lambda>i. probs ! i) (argsort probs)))" for m
    using sorted_argsort by (rule sorted_wrt_drop)
  then show ?thesis
    by (simp add: slice_from_def drop_map)
qed

lemma map_confidence_zip3:
  "length xs = length zs \<Longrightarrow> length ys = length zs \<Longrightarrow>
   map (\<lambda>r. snd (snd r)) (zip3 xs ys zs) = zs"
proof -
  assume a: "length xs = length zs" "length ys = length zs"
  have "map (\<lambda>r. snd (snd r)) (zip xs (zip ys zs)) = map snd (map snd (zip xs (zip ys zs)))"
    by simp
  also have "\<dots> = map snd (zip ys zs)"
    using a by (simp only: map_snd_zip length_zip min.idem)
  also have "\<dots> = zs"
    using a by (simp only: map_snd_zip)
  finally show ?thesis
    by (simp only: zip3_def)
qed

text \<open>
  What a call that returns has returned: the confidences are the values of the
  probability vector at the selected indices, best first.
\<close>

lemma predict_top_confidences:
  assumes "predict_top e st t lang n = (st', Inr rs)"
  shows "\<exists>text_en logits.
           translate e t = Inr text_en \<and> model_logits e text_en = Inr logits \<and>
           map (\<lambda>r. snd (snd r)) rs
             = rev (map (\<lambda>i. softmax logits ! i)
                    (slice_from (- n) (argsort (softmax logits))))"
proof -
  obtain text_en where tr: "translate e t = Inr text_en"
    using assms by (cases "translate e t") (simp_all add: predict_top_def)
  obtain logits where pr: "model_logits e text_en = Inr logits"
    using assms tr by (cases "model_logits e text_en") (simp_all add: predict_top_def)
  define probs where "probs = softmax logits"
  define top_idx where "top_idx = rev (slice_from (- n) (argsort probs))"
  obtain diseases where inv: "inverse_transform (le_classes e) top_idx = Inr diseases"
    using assms tr pr unfolding top_idx_def probs_def
    by (cases "inverse_transform (le_classes e)
          (rev (slice_from (- n) (argsort (softmax logits))))")
      (simp_all add: predict_top_def Let_def)
  have len: "length diseases = length top_idx"
    using inv by (auto simp: inverse_transform_def split: if_splits)
  have "\<exists>l. rs = zip3 diseases (map (translated_name l) diseases) (map (\<lambda>i. probs ! i) top_idx)"
  proof (cases lang)
    case (Some l)
    then have "rs = zip3 diseases (map (translated_name l) diseases) (map (\<lambda>i. probs ! i) top_idx)"
      using assms tr pr inv unfolding predict_top_def Let_def top_idx_def probs_def by simp
    then show ?thesis ..
  next
    case None
    then obtain l where "detect e t = Inr l"
      using assms tr pr inv unfolding predict_top_def Let_def top_idx_def probs_def
      by (cases "detect e t") simp_all
    then have "rs = zip3 diseases (map (translated_name l) diseases) (map (\<lambda>i. probs ! i) top_idx)"
      using None assms tr pr inv unfolding predict_top_def Let_def top_idx_def probs_def by simp
    then show ?thesis ..
  qed
  then obtain l where rs: "rs = zip3 diseases (map (translated_name l) diseases)
      (map (\<lambda>i. probs ! i) top_idx)" ..
  have "map (\<lambda>r. snd (snd r)) rs = map (\<lambda>i. probs ! i) top_idx"
    unfolding rs using len by (simp add: map_confidence_zip3)
  then show ?thesis
    using tr pr by (auto simp: top_idx_def probs_def rev_map)
qed

lemma sum_list_exp_nonneg: "0 \<le> sum_list (map exp (xs :: real list))"
  by (rule sum_list_nonneg) auto

lemma sum_list_exp_pos: "xs \<noteq> [] \<Longrightarrow> 0 < sum_list (map exp (xs :: real list))"
proof (cases xs)
  case Nil
  then show "xs \<noteq> [] \<Longrightarrow> ?thesis" by simp
next
  case (Cons y ys)
  have "0 < exp y + sum_list (map exp ys)"
    using sum_list_exp_nonneg [of ys] by (intro add_pos_nonneg) simp_all
  then show ?thesis
    using Cons by simp
qed

lemma exp_le_sum_list_exp: "x \<in> set xs \<Longrightarrow> exp x \<le> sum_list (map exp (xs :: real list))"
proof (induction xs)
  case Nil
  then show ?case by simp
next
  case (Cons y ys)
  have nonneg: "0 \<le> sum_list (map exp ys)"
    by (rule sum_list_exp_nonneg)
  show ?case
  proof (cases "x = y")
    case True
    then show ?thesis using nonneg by simp
  next
    case False
    then have "exp x \<le> sum_list (map exp ys)"
      using Cons by simp
    moreover have "0 \<le> exp y" by simp
    ultimately show ?thesis by (simp add: add_increasing)
  qed
qed

lemma softmax_range:
  assumes "p \<in> set (softmax logits)"
  shows "0 \<le> p \<and> p \<le> 1"
proof -
  obtain x where x: "x \<in> set logits" and p: "p = exp x / sum_list (map exp logits)"
    using assms by (auto simp: softmax_def)
  have pos: "0 < sum_list (map exp logits)"
    using x by (intro sum_list_exp_pos) auto
  have "exp x \<le> sum_list (map exp logits)"
    using x by (rule exp_le_sum_list_exp)
  then show ?thesis
    unfolding p using pos by simp
qed

lemma sum_list_softmax: "sum_list (softmax logits) = (if logits = [] then 0 else 1)"
proof (cases "logits = []")
  case True
  then show ?thesis by (simp add: softmax_def)
next
  case False
  then have pos: "0 < sum_list (map exp logits)"
    by (rule sum_list_exp_pos)
  have "sum_list (map (\<lambda>x. exp x / c) xs) = sum_list (map exp xs) / c" for c and xs :: "real list"
    by (induction xs) (simp_all add: add_divide_distrib)
  then have "sum_list (softmax logits) = sum_list (map exp logits) / sum_list (map exp logits)"
    by (simp add: softmax_def)
  then show ?thesis
    using False pos by simp
qed

text \<open>
  For a bound of at least one the ranking is as the contract says: at most \<open>top_n\<close>
  entries, the confidences do not increase along the list, each lies between 0 and 1,
  and the probabilities of all classes sum to at most 1. The last two parts are about the
  real-valued \<open>softmax\<close>, not about its float32 rounding.
\<close>

lemma predict_top_positive_bound:
  assumes "predict_top e st t lang n = (st', Inr rs)" and "0 < n"
  shows "length rs \<le> nat n \<and> sorted (rev (map (\<lambda>r. snd (snd r)) rs)) \<and>
         (\<forall>r \<in> set rs. 0 \<le> snd (snd r) \<and> snd (snd r) \<le> 1) \<and>
         (\<exists>text_en logits. translate e t = Inr text_en \<and> model_logits e text_en = Inr logits \<and>
            set (map (\<lambda>r. snd (snd r)) rs) \<subseteq> set (softmax logits) \<and>
            sum_list (softmax logits) \<le> 1)"
proof -
  obtain text_en logits where tr: "translate e t = Inr text_en"
    and lg: "model_logits e text_en = Inr logits"
    and c: "map (\<lambda>r. snd (snd r)) rs =
        rev (map (\<lambda>i. softmax logits ! i) (slice_from (- n) (argsort (softmax logits))))"
    using predict_top_confidences [OF assms(1)] by blast
  have "length rs = length (map (\<lambda>r. snd (snd r)) rs)"
    by simp
  also have "\<dots> = length (slice_from (- n) (argsort (softmax logits)))"
    unfolding c by simp
  also have "\<dots> \<le> nat n"
    using assms(2) by (simp add: length_slice_from_positive)
  finally have len: "length rs \<le> nat n" .
  have srt: "sorted (rev (map (\<lambda>r. snd (snd r)) rs))"
    unfolding c by (simp add: sorted_slice_argsort)
  have "set (slice_from (- n) (argsort (softmax logits))) \<subseteq> {0..<length (softmax logits)}"
    using set_drop_subset [of _ "argsort (softmax logits)"]
    by (auto simp: slice_from_def set_argsort simp flip: set_argsort)
  then have sub: "set (map (\<lambda>r. snd (snd r)) rs) \<subseteq> set (softmax logits)"
    unfolding c by auto
  have rng: "\<forall>r \<in> set rs. 0 \<le> snd (snd r) \<and> snd (snd r) \<le> 1"
  proof
    fix r assume "r \<in> set rs"
    then have "snd (snd r) \<in> set (map (\<lambda>r. snd (snd r)) rs)"
      by (simp add: image_iff) blast
    then have "snd (snd r) \<in> set (softmax logits)"
      using sub by blast
    then show "0 \<le> snd (snd r) \<and> snd (snd r) \<le> 1"
      by (rule softmax_range)
  qed
  have "sum_list (softmax logits) \<le> 1"
    by (simp add: sum_list_softmax)
  with len srt rng tr lg sub show ?thesis by blast
qed

lemma demo_predict_top_0:
  "predict_top demo_env st t (Some l) 0 =
     (st\<lparr>calls := calls st @ [Translate t, Classify t]\<rparr>,
      Inr [(ascii ''Malaria'', translated_name l (ascii ''Malaria''), 7 / 10),
           (ascii ''Migraine'', translated_name l (ascii ''Migraine''), 1 / 5),
           (ascii ''Diabetes'', translated_name l (ascii ''Diabetes''), 1 / 10)])"
  unfolding predict_top_def Let_def
  by (simp add: demo_env_def demo_softmax demo_argsort slice_from_def inverse_transform_def
      zip3_def log_call_def)

text \<open>
  Claim C2. The selection is \<open>probs.argsort()[-top_n:][::-1]\<close>, and for \<open>top_n = 0\<close> the
  slice \<open>[-0:]\<close> is the whole list: with the bound 0 and a classifier of three classes
  \<open>predict_top\<close> returns all three entries, not at most 0. For a bound of at least one
  the length, the order and the range of the confidences are as stated
  (\<open>predict_top_positive_bound\<close>).
\<close>

theorem predict_top_bound_zero_returns_all:
  "snd (predict_top demo_env initial_state (ascii ''fever'') (Some (ascii ''en'')) 0) =
     Inr [(ascii ''Malaria'', ascii ''Malaria'', 7 / 10),
          (ascii ''Migraine'', ascii ''Migraine'', 1 / 5),
          (ascii ''Diabetes'', ascii ''Diabetes'', 1 / 10)]"
  by (simp add: demo_predict_top_0 translated_name_def disease_translations_def ascii_def)

section \<open>Properties of the knowledge lookup\<close>

lemma py_strip_empty_iff: "py_strip s = [] \<longleftrightarrow> (\<forall>c \<in> set s. py_isspace c)"
proof
  assume "py_strip s = []"
  then have "dropWhile py_isspace (rev (dropWhile py_isspace s)) = []"
    by (simp add: py_strip_def)
  then have "\<forall>c \<in> set (rev (dropWhile py_isspace s)). py_isspace c"
    by (simp add: dropWhile_eq_Nil_conv)
  then have "\<forall>c \<in> set (dropWhile py_isspace s). py_isspace c"
    by simp
  then have "dropWhile py_isspace s = []"
    by (metis hd_dropWhile hd_in_set)
  then show "\<forall>c \<in> set s. py_isspace c"
    by (simp add: dropWhile_eq_Nil_conv)
next
  assume "\<forall>c \<in> set s. py_isspace c"
  then have "dropWhile py_isspace s = []"
    by (induction s) simp_all
  then show "py_strip s = []"
    unfolding py_strip_def by (simp only: rev.simps dropWhile.simps)
qed

lemma nonblank_str_iff:
  "nonblank_str p \<longleftrightarrow> (\<exists>s. p = PStr s \<and> py_strip s \<noteq> [])"
  by (cases p) simp_all

text \<open>
  Claim C5. A disease that is not a key of the description table gets exactly the text
  \<open>No description available.\<close>; one that is not a key of the precaution table gets the
  empty list; and every entry of a returned precaution list is a string that \<open>strip()\<close>
  does not empty, that is, a string with a character that is not whitespace. The values
  are the ones the chatbot puts into its reply.
\<close>

theorem knowledge_lookup_fallbacks:
  "(disease_desc e d = None \<longrightarrow>
      lookup_description e d = PStr (ascii ''No description available.'')) \<and>
   (disease_prec e d = None \<longrightarrow> lookup_precautions e d = []) \<and>
   (\<forall>p \<in> set (lookup_precautions e d).
      \<exists>s. p = PStr s \<and> py_strip s \<noteq> [] \<and> (\<exists>c \<in> set s. \<not> py_isspace c)) \<and>
   (\<forall>st inp st' kvs. chatbot e st inp = (st', Inr (PDict kvs)) \<longrightarrow>
      (\<exists>disease_en.
         map_of kvs (ascii ''description'') = Some (lookup_description e disease_en) \<and>
         map_of kvs (ascii ''precautions'') = Some (PList (lookup_precautions e disease_en))))"
proof -
  have desc: "lookup_description e d = PStr (ascii ''No description available.'')"
    if "disease_desc e d = None"
    using that by (simp add: lookup_description_def no_description_def)
  have prec: "lookup_precautions e d = []" if "disease_prec e d = None"
    using that by (simp add: lookup_precautions_def)
  have entries: "\<exists>s. p = PStr s \<and> py_strip s \<noteq> [] \<and> (\<exists>c \<in> set s. \<not> py_isspace c)"
    if "p \<in> set (lookup_precautions e d)" for p
  proof -
    from that have "nonblank_str p"
      by (simp add: lookup_precautions_def)
    then obtain s where s: "p = PStr s" "py_strip s \<noteq> []"
      by (auto simp: nonblank_str_iff)
    then have "\<exists>c \<in> set s. \<not> py_isspace c"
      by (simp add: py_strip_empty_iff)
    with s show ?thesis by blast
  qed
  have reply: "\<exists>disease_en.
         map_of kvs (ascii ''description'') = Some (lookup_description e disease_en) \<and>
         map_of kvs (ascii ''precautions'') = Some (PList (lookup_precautions e disease_en))"
    if c: "chatbot e st inp = (st', Inr (PDict kvs))" for st inp st' kvs
  proof -
    have no_ar: "\<not> any_in switch_ar (str_lower e inp)"
      using c by (auto simp: chatbot_switch_ar)
    have no_en: "\<not> any_in switch_en (str_lower e inp)"
      using c no_ar by (auto simp: chatbot_switch_en)
    have no_fr: "\<not> any_in switch_fr (str_lower e inp)"
      using c no_ar no_en by (auto simp: chatbot_switch_fr)
    have loop: "greetings_loop greetings (current_lang st) (str_lower e inp) = None"
      using c no_ar no_en no_fr
      by (cases "greetings_loop greetings (current_lang st) (str_lower e inp)")
        (simp_all add: chatbot_no_switch)
    obtain st1 r where p: "predict_disease e st inp (Some (current_lang st)) = (st1, r)"
      by (cases "predict_disease e st inp (Some (current_lang st))")
    obtain disease_en disease_out prob where r: "r = Inr (disease_en, disease_out, prob)"
      using c no_ar no_en no_fr loop p
      by (cases r) (auto simp: chatbot_no_switch)
    have "kvs = [(ascii ''response'',
                   PStr (response_text e disease_out prob (lookup_description e disease_en)
                          (lookup_precautions e disease_en))),
                 (ascii ''disease'', PStr disease_out),
                 (ascii ''description'', lookup_description e disease_en),
                 (ascii ''precautions'', PList (lookup_precautions e disease_en)),
                 (ascii ''confidence'', PFloat prob)]"
      using c no_ar no_en no_fr loop p r by (simp add: chatbot_no_switch)
    then have "map_of kvs (ascii ''description'') = Some (lookup_description e disease_en) \<and>
         map_of kvs (ascii ''precautions'') = Some (PList (lookup_precautions e disease_en))"
      by (simp add: ascii_def)
    then show ?thesis ..
  qed
  from desc prec entries reply show ?thesis by blast
qed

text \<open>
  In the concrete tables \<open>Malaria\<close> has four precaution cells, one of them NaN and one a
  single space: two entries are returned. \<open>Migraine\<close> is in neither table.
\<close>

theorem knowledge_lookup_fallbacks_witness:
  "lookup_description demo_env (ascii ''Migraine'') = PStr (ascii ''No description available.'') \<and>
   lookup_precautions demo_env (ascii ''Migraine'') = [] \<and>
   lookup_precautions demo_env (ascii ''Malaria'') =
     [PStr (ascii ''Consult nearest hospital''), PStr (ascii ''avoid oily food'')] \<and>
   (\<exists>s. PStr (ascii ''avoid oily food'') = PStr s \<and> py_strip s \<noteq> [])"
proof -
  have none: "disease_desc demo_env (ascii ''Migraine'') = None \<and>
      disease_prec demo_env (ascii ''Migraine'') = None"
    by (simp add: demo_env_def ascii_def)
  have mal: "lookup_precautions demo_env (ascii ''Malaria'') =
     [PStr (ascii ''Consult nearest hospital''), PStr (ascii ''avoid oily food'')]"
    by (simp add: lookup_precautions_def demo_env_def ascii_def py_strip_def py_isspace_def)
  have mem: "PStr (ascii ''avoid oily food'') \<in> set (lookup_precautions demo_env (ascii ''Malaria''))"
    unfolding mal by simp
  note t = knowledge_lookup_fallbacks [of demo_env]
  have "lookup_description demo_env (ascii ''Migraine'') = PStr (ascii ''No description available.'')"
    using t [of "ascii ''Migraine''"] none by simp
  moreover have "lookup_precautions demo_env (ascii ''Migraine'') = []"
    using t [of "ascii ''Migraine''"] none by simp
  moreover have "\<exists>s. PStr (ascii ''avoid oily food'') = PStr s \<and> py_strip s \<noteq> []"
    using t [of "ascii ''Malaria''"] mem by fast
  ultimately show ?thesis
    using mal by simp
qed

section \<open>Properties of the doctor lookup client\<close>

lemma get_doctors_parsed:
  "http (query_params disease symptom) = Response status_code http_error (Some parsed) \<Longrightarrow>
   \<not> raises_for_status status_code \<Longrightarrow>
   get_doctors http disease symptom = shape_doctors parsed"
  by (simp add: get_doctors_def)

lemma shape_doctors_list:
  "shape_doctors (PList ds) =
     (if ds = [] then Inr no_doctors_payload
      else Inr (PDict [(ascii ''count'', PInt (int (length ds))),
                       (ascii ''doctors'', PList (map doctor_entry ds))]))"
  by (simp add: shape_doctors_def)

lemma shape_doctors_wrapped:
  "map_of kvs (ascii ''doctors'') = Some v \<Longrightarrow>
   shape_doctors (PDict kvs) =
     (if \<not> truthy v then Inr no_doctors_payload
      else (case py_iter v of
              Inl err \<Rightarrow> Inl err
            | Inr docs \<Rightarrow>
                Inr (PDict [(ascii ''count'', PInt (int (length docs))),
                            (ascii ''doctors'', PList (map doctor_entry docs))])))"
  by (simp add: shape_doctors_def split: sum.splits)

lemma shape_doctors_wrapped_list:
  "map_of kvs (ascii ''doctors'') = Some (PList ds) \<Longrightarrow>
   shape_doctors (PDict kvs) = shape_doctors (PList ds)"
  by (simp add: shape_doctors_wrapped shape_doctors_list)

lemma doctor_entry_not_dict:
  "(\<forall>doc. v \<noteq> PDict doc) \<Longrightarrow> doctor_entry v = PDict [(ascii ''raw_entry'', v)]"
  by (cases v) simp_all

text \<open>
  The value under \<open>doctors\<close> is not checked to be a list. A number that is not zero is
  iterated over and the \<open>TypeError\<close> leaves \<open>get_doctors\<close>, since only
  \<open>RequestException\<close> is caught.
\<close>

lemma get_doctors_doctors_number_raises:
  "get_doctors (\<lambda>params. Response 200 [] (Some (PDict [(ascii ''doctors'', PInt 5)]))) None None
     = Inl TypeError"
  by (simp add: get_doctors_def raises_for_status_def shape_doctors_def)

text \<open>
  Claim C6, as the code has it. For a fetched response (no 4xx or 5xx status) whose body
  is a mapping with the key \<open>doctors\<close> bound to a non-empty list, \<open>get_doctors\<close> returns
  \<open>count\<close>, the length of the list, and \<open>doctors\<close>, a list of the same length. A mapping
  entry becomes exactly the six fields name, specialization, hospital, address, contact
  and rating; \<open>contact\<close> is read from the source key \<open>phone\<close>, the other five from the key
  of their own name, and a field is null where the source entry lacks its source key.
  An entry that is not a mapping is kept as it is under \<open>raw_entry\<close>.
\<close>

theorem get_doctors_reshapes_entries:
  "(http (query_params disease symptom) = Response status_code http_error (Some (PDict kvs)) \<and>
    \<not> raises_for_status status_code \<and>
    map_of kvs (ascii ''doctors'') = Some (PList ds) \<and> ds \<noteq> []
    \<longrightarrow> get_doctors http disease symptom =
          Inr (PDict [(ascii ''count'', PInt (int (length ds))),
                      (ascii ''doctors'', PList (map doctor_entry ds))]) \<and>
        length (map doctor_entry ds) = length ds) \<and>
   doctor_entry (PDict doc) =
     PDict [(ascii ''name'', dict_get doc (ascii ''name'')),
            (ascii ''specialization'', dict_get doc (ascii ''specialization'')),
            (ascii ''hospital'', dict_get doc (ascii ''hospital'')),
            (ascii ''address'', dict_get doc (ascii ''address'')),
            (ascii ''contact'', dict_get doc (ascii ''phone'')),
            (ascii ''rating'', dict_get doc (ascii ''rating''))] \<and>
   (map_of doc k = None \<longrightarrow> dict_get doc k = PNone) \<and>
   (map_of doc k = Some x \<longrightarrow> dict_get doc k = x) \<and>
   ((\<forall>d. v \<noteq> PDict d) \<longrightarrow> doctor_entry v = PDict [(ascii ''raw_entry'', v)])"
proof -
  have "get_doctors http disease symptom =
          Inr (PDict [(ascii ''count'', PInt (int (length ds))),
                      (ascii ''doctors'', PList (map doctor_entry ds))])"
    if "http (query_params disease symptom) = Response status_code http_error (Some (PDict kvs))"
      "\<not> raises_for_status status_code"
      "map_of kvs (ascii ''doctors'') = Some (PList ds)" "ds \<noteq> []"
    using that by (simp add: get_doctors_parsed shape_doctors_wrapped_list shape_doctors_list)
  moreover have "(map_of doc k = None \<longrightarrow> dict_get doc k = PNone) \<and>
      (map_of doc k = Some x \<longrightarrow> dict_get doc k = x)"
    by (simp add: dict_get_def)
  moreover have "(\<forall>d. v \<noteq> PDict d) \<longrightarrow> doctor_entry v = PDict [(ascii ''raw_entry'', v)]"
    using doctor_entry_not_dict by blast
  ultimately show ?thesis
    by simp
qed

text \<open>
  Two mapping entries, the first with a name and a phone number only, the second empty:
  \<open>count\<close> is 2 and both entries have the six fields.
\<close>

theorem get_doctors_reshapes_entries_witness:
  "get_doctors
     (\<lambda>params. Response 200 []
        (Some (PDict [(ascii ''doctors'',
           PList [PDict [(ascii ''name'', PStr (ascii ''Dr A'')),
                         (ascii ''phone'', PStr (ascii ''555''))],
                  PDict []])])))
     (Some (ascii ''Diabetes'')) None =
   Inr (PDict [(ascii ''count'', PInt 2),
               (ascii ''doctors'',
                PList [PDict [(ascii ''name'', PStr (ascii ''Dr A'')),
                              (ascii ''specialization'', PNone),
                              (ascii ''hospital'', PNone),
                              (ascii ''address'', PNone),
                              (ascii ''contact'', PStr (ascii ''555'')),
                              (ascii ''rating'', PNone)],
                       PDict [(ascii ''name'', PNone),
                              (ascii ''specialization'', PNone),
                              (ascii ''hospital'', PNone),
                              (ascii ''address'', PNone),
                              (ascii ''contact'', PNone),
                              (ascii ''rating'', PNone)]])])"
proof -
  let ?ds = "[PDict [(ascii ''name'', PStr (ascii ''Dr A'')),
                     (ascii ''phone'', PStr (ascii ''555''))],
              PDict []]"
  let ?kvs = "[(ascii ''doctors'', PList ?ds)]"
  let ?http = "\<lambda>params :: (pystr \<times> pystr) list. Response 200 [] (Some (PDict ?kvs))"
  have ok: "\<not> raises_for_status 200"
    by (simp add: raises_for_status_def)
  have key: "map_of ?kvs (ascii ''doctors'') = Some (PList ?ds)"
    by simp
  have "get_doctors ?http (Some (ascii ''Diabetes'')) None =
      Inr (PDict [(ascii ''count'', PInt (int (length ?ds))),
                  (ascii ''doctors'', PList (map doctor_entry ?ds))])"
    using get_doctors_reshapes_entries
      [of ?http "Some (ascii ''Diabetes'')" None 200 "[]" ?kvs ?ds] ok key
    by simp
  then show ?thesis
    by (simp add: dict_get_def ascii_def)
qed

text \<open>
  Why C6 does not hold as stated: an entry that lacks the field \<open>contact\<close> and has the
  field \<open>phone\<close> gets a \<open>contact\<close> that is not null, and an entry that has \<open>contact\<close> and
  lacks \<open>phone\<close> gets a null \<open>contact\<close>.
\<close>

theorem get_doctors_contact_counterexample:
  "map_of [(ascii ''phone'', PStr (ascii ''555''))] (ascii ''contact'') = None \<and>
   get_doctors
     (\<lambda>params. Response 200 []
        (Some (PDict [(ascii ''doctors'',
           PList [PDict [(ascii ''phone'', PStr (ascii ''555''))],
                  PDict [(ascii ''contact'', PStr (ascii ''777''))]])])))
     None None =
   Inr (PDict [(ascii ''count'', PInt 2),
               (ascii ''doctors'',
                PList [PDict [(ascii ''name'', PNone),
                              (ascii ''specialization'', PNone),
                              (ascii ''hospital'', PNone),
                              (ascii ''address'', PNone),
                              (ascii ''contact'', PStr (ascii ''555'')),
                              (ascii ''rating'', PNone)],
                       PDict [(ascii ''name'', PNone),
                              (ascii ''specialization'', PNone),
                              (ascii ''hospital'', PNone),
                              (ascii ''address'', PNone),
                              (ascii ''contact'', PNone),
                              (ascii ''rating'', PNone)]])])"
  by (simp add: get_doctors_def raises_for_status_def shape_doctors_def dict_get_def ascii_def)

text \<open>
  Claim C7, as the code has it. When \<open>requests.get\<close> raises, or the response has a 4xx
  or 5xx status, \<open>get_doctors\<close> returns a payload whose only field is \<open>error\<close>, with the
  text of the failure; a response whose body is not JSON gives an \<open>error\<close> payload too.
  In each case the call returns: no exception leaves it.
\<close>

theorem get_doctors_failure_payload:
  "(http (query_params disease symptom) = RequestFailed msg
    \<longrightarrow> get_doctors http disease symptom =
          Inr (PDict [(ascii ''error'', PStr (ascii ''Failed to fetch doctors: '' @ msg))])) \<and>
   (http (query_params disease symptom) = Response status_code http_error body \<and>
    400 \<le> status_code \<and> status_code < 600
    \<longrightarrow> get_doctors http disease symptom =
          Inr (PDict [(ascii ''error'',
                       PStr (ascii ''Failed to fetch doctors: '' @ http_error))])) \<and>
   (http (query_params disease symptom) = Response status_code http_error None \<and>
    \<not> (400 \<le> status_code \<and> status_code < 600)
    \<longrightarrow> get_doctors http disease symptom =
          Inr (PDict [(ascii ''error'',
                       PStr (ascii ''Invalid response format from Doctors API.''))]))"
  by (simp add: get_doctors_def raises_for_status_def error_payload_def)

text \<open>A timeout, a 404 with a JSON body, and an answer that is not JSON.\<close>

theorem get_doctors_failure_payload_witness:
  "get_doctors (\<lambda>params. RequestFailed (ascii ''timed out'')) (Some (ascii ''Diabetes'')) None =
     Inr (PDict [(ascii ''error'', PStr (ascii ''Failed to fetch doctors: timed out''))]) \<and>
   get_doctors (\<lambda>params. Response 404 (ascii ''404 Client Error'') (Some (PList [PInt 1])))
       None (Some (ascii ''Fever'')) =
     Inr (PDict [(ascii ''error'', PStr (ascii ''Failed to fetch doctors: 404 Client Error''))]) \<and>
   get_doctors (\<lambda>params. Response 204 [] None) None None =
     Inr (PDict [(ascii ''error'', PStr (ascii ''Invalid response format from Doctors API.''))])"
proof -
  have "get_doctors (\<lambda>params. RequestFailed (ascii ''timed out'')) (Some (ascii ''Diabetes'')) None =
     Inr (PDict [(ascii ''error'', PStr (ascii ''Failed to fetch doctors: timed out''))])"
    using get_doctors_failure_payload
      [of "\<lambda>params. RequestFailed (ascii ''timed out'')" "Some (ascii ''Diabetes'')" None
        "ascii ''timed out''"]
    by (simp add: ascii_def)
  moreover have "get_doctors
       (\<lambda>params. Response 404 (ascii ''404 Client Error'') (Some (PList [PInt 1])))
       None (Some (ascii ''Fever'')) =
     Inr (PDict [(ascii ''error'', PStr (ascii ''Failed to fetch doctors: 404 Client Error''))])"
    using get_doctors_failure_payload
      [of "\<lambda>params. Response 404 (ascii ''404 Client Error'') (Some (PList [PInt 1]))"
        None "Some (ascii ''Fever'')" _ 404 "ascii ''404 Client Error''" "Some (PList [PInt 1])"]
    by (simp add: ascii_def)
  moreover have "get_doctors (\<lambda>params. Response 204 [] None) None None =
     Inr (PDict [(ascii ''error'', PStr (ascii ''Invalid response format from Doctors API.''))])"
    using get_doctors_failure_payload
      [of "\<lambda>params. Response 204 [] None" None None _ 204 "[]"]
    by simp
  ultimately show ?thesis by simp
qed

text \<open>
  Why C7 does not hold as stated: \<open>raise_for_status\<close> raises for the 4xx and 5xx codes
  only. A response with status 201 and a JSON list is shaped like a 200 one, and the
  payload has no \<open>error\<close> field.
\<close>

theorem get_doctors_status_201_counterexample:
  "get_doctors
     (\<lambda>params. Response 201 [] (Some (PList [PDict [(ascii ''name'', PStr (ascii ''Dr A''))]])))
     (Some (ascii ''Diabetes'')) None =
   Inr (PDict [(ascii ''count'', PInt 1),
               (ascii ''doctors'',
                PList [PDict [(ascii ''name'', PStr (ascii ''Dr A'')),
                              (ascii ''specialization'', PNone),
                              (ascii ''hospital'', PNone),
                              (ascii ''address'', PNone),
                              (ascii ''contact'', PNone),
                              (ascii ''rating'', PNone)]])]) \<and>
   \<not> has_key
       (PDict [(ascii ''count'', PInt 1),
               (ascii ''doctors'',
                PList [PDict [(ascii ''name'', PStr (ascii ''Dr A'')),
                              (ascii ''specialization'', PNone),
                              (ascii ''hospital'', PNone),
                              (ascii ''address'', PNone),
                              (ascii ''contact'', PNone),
                              (ascii ''rating'', PNone)]])])
       (ascii ''error'')"
  by (simp add: get_doctors_def raises_for_status_def shape_doctors_def dict_get_def ascii_def)

text \<open>
  The empty doctors list. When the fetched response parses to a list, given directly or
  under the key \<open>doctors\<close>, and the list is empty, \<open>get_doctors\<close> returns exactly the
  payload with the one field \<open>message\<close>; among the lists, the payload has the fields
  \<open>count\<close> and \<open>doctors\<close> exactly when the list is not empty. This is a statement about
  list values only.
\<close>

lemma get_doctors_empty_list_message:
  "http (query_params disease symptom) = Response status_code http_error (Some parsed) \<and>
   \<not> raises_for_status status_code \<and>
   (parsed = PList ds \<or> (\<exists>kvs. parsed = PDict kvs \<and> map_of kvs (ascii ''doctors'') = Some (PList ds)))
   \<longrightarrow> (ds = [] \<longrightarrow>
          get_doctors http disease symptom =
            Inr (PDict [(ascii ''message'',
                         PStr (ascii ''No doctors found for the given disease or symptom.''))])) \<and>
       (\<exists>payload. get_doctors http disease symptom = Inr payload \<and>
          (has_key payload (ascii ''count'') \<longleftrightarrow> ds \<noteq> []) \<and>
          (has_key payload (ascii ''doctors'') \<longleftrightarrow> ds \<noteq> []))"
proof -
  have "(ds = [] \<longrightarrow>
          get_doctors http disease symptom =
            Inr (PDict [(ascii ''message'',
                         PStr (ascii ''No doctors found for the given disease or symptom.''))])) \<and>
       (\<exists>payload. get_doctors http disease symptom = Inr payload \<and>
          (has_key payload (ascii ''count'') \<longleftrightarrow> ds \<noteq> []) \<and>
          (has_key payload (ascii ''doctors'') \<longleftrightarrow> ds \<noteq> []))"
    if r: "http (query_params disease symptom) = Response status_code http_error (Some parsed)"
      and ok: "\<not> raises_for_status status_code"
      and p: "parsed = PList ds \<or>
          (\<exists>kvs. parsed = PDict kvs \<and> map_of kvs (ascii ''doctors'') = Some (PList ds))"
  proof -
    have "shape_doctors parsed = shape_doctors (PList ds)"
      using p by (auto simp: shape_doctors_wrapped_list)
    then have g: "get_doctors http disease symptom = shape_doctors (PList ds)"
      using r ok by (simp add: get_doctors_parsed)
    show ?thesis
    proof (cases "ds = []")
      case True
      then have "get_doctors http disease symptom =
          Inr (PDict [(ascii ''message'',
                       PStr (ascii ''No doctors found for the given disease or symptom.''))])"
        using g by (simp add: shape_doctors_list no_doctors_payload_def)
      then show ?thesis
        using True by (simp add: ascii_def)
    next
      case False
      then have "get_doctors http disease symptom =
          Inr (PDict [(ascii ''count'', PInt (int (length ds))),
                      (ascii ''doctors'', PList (map doctor_entry ds))])"
        using g by (simp add: shape_doctors_list)
      then show ?thesis
        using False by (simp add: ascii_def)
    qed
  qed
  then show ?thesis by blast
qed

text \<open>An empty list under the key, an empty list on its own, and a list of one entry.\<close>

lemma get_doctors_empty_list_message_example:
  "get_doctors (\<lambda>params. Response 200 [] (Some (PDict [(ascii ''doctors'', PList [])])))
       (Some (ascii ''Diabetes'')) None =
     Inr (PDict [(ascii ''message'',
                  PStr (ascii ''No doctors found for the given disease or symptom.''))]) \<and>
   get_doctors (\<lambda>params. Response 200 [] (Some (PList []))) None None =
     Inr (PDict [(ascii ''message'',
                  PStr (ascii ''No doctors found for the given disease or symptom.''))]) \<and>
   (\<exists>payload. get_doctors (\<lambda>params. Response 200 [] (Some (PList [PInt 7]))) None None
        = Inr payload \<and> has_key payload (ascii ''count''))"
proof -
  have ok: "\<not> raises_for_status 200"
    by (simp add: raises_for_status_def)
  have "get_doctors (\<lambda>params. Response 200 [] (Some (PDict [(ascii ''doctors'', PList [])])))
       (Some (ascii ''Diabetes'')) None =
     Inr (PDict [(ascii ''message'',
                  PStr (ascii ''No doctors found for the given disease or symptom.''))])"
    using get_doctors_empty_list_message
      [of "\<lambda>params. Response 200 [] (Some (PDict [(ascii ''doctors'', PList [])]))"
        "Some (ascii ''Diabetes'')" None 200 "[]" "PDict [(ascii ''doctors'', PList [])]" "[]"] ok
    by simp
  moreover have "get_doctors (\<lambda>params. Response 200 [] (Some (PList []))) None None =
     Inr (PDict [(ascii ''message'',
                  PStr (ascii ''No doctors found for the given disease or symptom.''))])"
    using get_doctors_empty_list_message
      [of "\<lambda>params. Response 200 [] (Some (PList []))" None None 200 "[]" "PList []" "[]"] ok
    by simp
  moreover have "\<exists>payload. get_doctors (\<lambda>params. Response 200 [] (Some (PList [PInt 7]))) None None
        = Inr payload \<and> has_key payload (ascii ''count'')"
    using get_doctors_empty_list_message
      [of "\<lambda>params. Response 200 [] (Some (PList [PInt 7]))" None None 200 "[]"
        "PList [PInt 7]" "[PInt 7]"] ok
    by auto
  ultimately show ?thesis by simp
qed

text \<open>
  Claim C9. The first half holds: an empty doctors list gives exactly the \<open>message\<close>
  payload, with no \<open>count\<close> and no \<open>doctors\<close> field (\<open>get_doctors_empty_list_message\<close>).
  The second half does not: the \<open>count\<close>/\<open>doctors\<close> shape is not produced for non-empty
  lists only. The comment of line 52 says the data is checked to be list-like, and a
  body that is not a mapping and not a list is refused; but the value unwrapped from the
  key \<open>doctors\<close> is not checked. A string under the key is iterated over character by
  character and a mapping under the key over its keys, and both give \<open>count\<close> and
  \<open>doctors\<close>, while the same string as the whole body gives the payload for an
  unexpected structure.
\<close>

theorem get_doctors_count_for_non_list_value:
  "get_doctors
     (\<lambda>params. Response 200 [] (Some (PDict [(ascii ''doctors'', PStr (ascii ''ab''))])))
     None None =
   Inr (PDict [(ascii ''count'', PInt 2),
               (ascii ''doctors'',
                PList [PDict [(ascii ''raw_entry'', PStr (ascii ''a''))],
                       PDict [(ascii ''raw_entry'', PStr (ascii ''b''))]])]) \<and>
   get_doctors
     (\<lambda>params. Response 200 []
        (Some (PDict [(ascii ''doctors'', PDict [(ascii ''b'', PInt 1)])])))
     None None =
   Inr (PDict [(ascii ''count'', PInt 1),
               (ascii ''doctors'', PList [PDict [(ascii ''raw_entry'', PStr (ascii ''b''))]])]) \<and>
   get_doctors (\<lambda>params. Response 200 [] (Some (PStr (ascii ''ab'')))) None None =
   Inr (PDict [(ascii ''message'', PStr (ascii ''Unexpected API response structure.'')),
               (ascii ''raw'', PStr (ascii ''ab''))])"
  by (simp add: get_doctors_def raises_for_status_def shape_doctors_def ascii_def)

end
